theory Spec2Isabelle
  imports
    Complex_Main
    "HOL-Library.Multiset"
    "HOL-Library.Char_ord"
    "HOL-Library.List_Lexorder"
    "HOL-Library.Product_Lexorder"
begin

section \<open>Text primitives of the host language\<close>

text \<open>
  The analytics pipeline of \<^verbatim>\<open>backend/app.py\<close> works on Python strings. A Python
  \<^verbatim>\<open>str\<close> is modelled as a \<^typ>\<open>string\<close>, one \<^typ>\<open>char\<close> per code point. The codes
  0 to 127 are ASCII. The codes above 127 stand for non-ASCII code points that carry no
  case, are no whitespace and are no decimal digit; \<open>CHR 0x96\<close> stands for the en dash
  (U+2013) that two string literals of the source contain.

  Floats are modelled as \<^typ>\<open>real\<close>: every property below depends on the order of the
  scores only, never on a rounded value.
\<close>

definition en_dash :: char where
  "en_dash = CHR 0x96"

definition is_space :: "char \<Rightarrow> bool" where
  \<comment> \<open>\<^verbatim>\<open>str.isspace\<close> and the class \<^verbatim>\<open>\s\<close>: TAB to CR, FS to US, and the blank\<close>
  "is_space c = (c \<in> set [CHR 0x09, CHR 0x0A, CHR 0x0B, CHR 0x0C, CHR 0x0D,
                           CHR 0x1C, CHR 0x1D, CHR 0x1E, CHR 0x1F, CHR 0x20])"

definition is_digit :: "char \<Rightarrow> bool" where
  \<comment> \<open>the class \<^verbatim>\<open>\d\<close>\<close>
  "is_digit c = (c \<in> set ''0123456789'')"

definition is_upper :: "char \<Rightarrow> bool" where
  "is_upper c = (c \<in> set ''ABCDEFGHIJKLMNOPQRSTUVWXYZ'')"

definition is_lower :: "char \<Rightarrow> bool" where
  "is_lower c = (c \<in> set ''abcdefghijklmnopqrstuvwxyz'')"

definition lower_char :: "char \<Rightarrow> char" where
  "lower_char c =
     (case map_of (zip ''ABCDEFGHIJKLMNOPQRSTUVWXYZ'' ''abcdefghijklmnopqrstuvwxyz'') c of
        Some l \<Rightarrow> l | None \<Rightarrow> c)"

definition upper_char :: "char \<Rightarrow> char" where
  "upper_char c =
     (case map_of (zip ''abcdefghijklmnopqrstuvwxyz'' ''ABCDEFGHIJKLMNOPQRSTUVWXYZ'') c of
        Some u \<Rightarrow> u | None \<Rightarrow> c)"

definition lower :: "string \<Rightarrow> string" where
  \<comment> \<open>\<^verbatim>\<open>str.lower()\<close>\<close>
  "lower s = map lower_char s"

definition strip :: "string \<Rightarrow> string" where
  \<comment> \<open>\<^verbatim>\<open>str.strip()\<close>\<close>
  "strip s = rev (dropWhile is_space (rev (dropWhile is_space s)))"

fun startswith :: "string \<Rightarrow> string \<Rightarrow> bool" where
  \<comment> \<open>\<^verbatim>\<open>s.startswith(p)\<close>\<close>
  "startswith s [] = True"
| "startswith [] (p # ps) = False"
| "startswith (c # cs) (p # ps) = (c = p \<and> startswith cs ps)"

definition endswith :: "string \<Rightarrow> string \<Rightarrow> bool" where
  "endswith s p = startswith (rev s) (rev p)"

fun contains :: "string \<Rightarrow> string \<Rightarrow> bool" where
  \<comment> \<open>\<^verbatim>\<open>sub in s\<close>, written \<open>contains s sub\<close>\<close>
  "contains [] sub = (sub = [])"
| "contains (c # cs) sub = (startswith (c # cs) sub \<or> contains cs sub)"

fun count_from :: "nat \<Rightarrow> string \<Rightarrow> string \<Rightarrow> nat" where
  \<comment> \<open>scan for non-overlapping occurrences; the first argument counts the characters still
      covered by the occurrence found last\<close>
  "count_from k [] sub = 0"
| "count_from (Suc k) (c # cs) sub = count_from k cs sub"
| "count_from 0 (c # cs) sub =
     (if startswith (c # cs) sub then Suc (count_from (length sub - 1) cs sub)
      else count_from 0 cs sub)"

definition count :: "string \<Rightarrow> string \<Rightarrow> nat" where
  \<comment> \<open>\<^verbatim>\<open>s.count(sub)\<close>; the empty \<open>sub\<close> occurs between all characters\<close>
  "count s sub = (if sub = [] then Suc (length s) else count_from 0 s sub)"

fun replace_from :: "nat \<Rightarrow> string \<Rightarrow> string \<Rightarrow> string \<Rightarrow> string" where
  "replace_from k [] old new = []"
| "replace_from (Suc k) (c # cs) old new = replace_from k cs old new"
| "replace_from 0 (c # cs) old new =
     (if startswith (c # cs) old then new @ replace_from (length old - 1) cs old new
      else c # replace_from 0 cs old new)"

definition replace :: "string \<Rightarrow> string \<Rightarrow> string \<Rightarrow> string" where
  \<comment> \<open>\<^verbatim>\<open>s.replace(old, new)\<close> for a non-empty \<open>old\<close>, the only use in the source\<close>
  "replace s old new = replace_from 0 s old new"

fun split_ws :: "bool \<Rightarrow> string \<Rightarrow> nat" where
  \<comment> \<open>the number of maximal runs of non-space characters; the flag says that the scan is
      inside such a run\<close>
  "split_ws inword [] = 0"
| "split_ws inword (c # cs) =
     (if is_space c then split_ws False cs
      else if inword then split_ws True cs
      else Suc (split_ws True cs))"

definition word_count :: "string \<Rightarrow> nat" where
  \<comment> \<open>\<^verbatim>\<open>len(s.split())\<close>\<close>
  "word_count s = split_ws False s"

fun title_from :: "bool \<Rightarrow> string \<Rightarrow> string" where
  \<comment> \<open>\<^verbatim>\<open>str.title()\<close>: a cased character is upper-cased when the one before it is
      uncased, and lower-cased otherwise\<close>
  "title_from prev [] = []"
| "title_from prev (c # cs) =
     (if is_upper c \<or> is_lower c
      then (if prev then lower_char c else upper_char c) # title_from True cs
      else c # title_from False cs)"

definition title_case :: "string \<Rightarrow> string" where
  "title_case s = title_from False s"

definition isdigit :: "string \<Rightarrow> bool" where
  \<comment> \<open>\<^verbatim>\<open>str.isdigit()\<close>\<close>
  "isdigit s = (s \<noteq> [] \<and> list_all is_digit s)"

definition digit_val :: "char \<Rightarrow> int" where
  "digit_val c = int (of_char c) - 48"

definition py_int :: "string \<Rightarrow> int option" where
  \<comment> \<open>\<^verbatim>\<open>int(s)\<close> on what a group \<^verbatim>\<open>(\d+)\<close> captures; \<open>None\<close> is the \<^verbatim>\<open>ValueError\<close>,
      which the interpreter also raises for a numeral of more than 4300 digits\<close>
  "py_int s =
     (if isdigit s \<and> length s \<le> 4300
      then Some (foldl (\<lambda>acc c. 10 * acc + digit_val c) 0 s) else None)"

subsection \<open>Regular expressions\<close>

text \<open>
  The patterns of the source use literals, the classes \<^verbatim>\<open>\d\<close> and \<^verbatim>\<open>\s\<close> under
  \<^verbatim>\<open>+\<close> and \<^verbatim>\<open>*\<close>, alternation, the optional group and capture groups. \<open>rx_match\<close>
  lists every way the pattern matches at the start of the text, in the order in which
  the backtracking matcher of \<^verbatim>\<open>re\<close> tries them (greedy repetition, alternatives
  left to right), each with its captures and the unread rest; the matcher's answer is
  the head of that list.
\<close>

datatype cls = Digit | Space

fun in_cls :: "cls \<Rightarrow> char \<Rightarrow> bool" where
  "in_cls Digit c = is_digit c"
| "in_cls Space c = is_space c"

datatype rx =
    Lit string
  | Plus cls
  | Star cls
  | Seq rx rx
  | Alt rx rx
  | Opt rx
  | Grp nat rx

type_synonym captures = "(nat \<times> string) list"

fun rx_match :: "rx \<Rightarrow> string \<Rightarrow> (captures \<times> string) list" where
  "rx_match (Lit l) s = (if startswith s l then [([], drop (length l) s)] else [])"
| "rx_match (Plus c) s =
     map (\<lambda>k. ([], drop k s)) (rev [1 ..< Suc (length (takeWhile (in_cls c) s))])"
| "rx_match (Star c) s =
     map (\<lambda>k. ([], drop k s)) (rev [0 ..< Suc (length (takeWhile (in_cls c) s))])"
| "rx_match (Seq a b) s =
     concat (map (\<lambda>(c1, r1). map (\<lambda>(c2, r2). (c1 @ c2, r2)) (rx_match b r1)) (rx_match a s))"
| "rx_match (Alt a b) s = rx_match a s @ rx_match b s"
| "rx_match (Opt a) s = rx_match a s @ [([], s)]"
| "rx_match (Grp i a) s =
     map (\<lambda>(c, r). (c @ [(i, take (length s - length r) s)], r)) (rx_match a s)"

fun findall_from :: "rx \<Rightarrow> nat \<Rightarrow> string \<Rightarrow> captures list" where
  \<comment> \<open>the scan of \<^verbatim>\<open>re.findall\<close>: leftmost matches that do not overlap; the number
      counts the characters still covered by the match found last\<close>
  "findall_from r k [] = []"
| "findall_from r (Suc k) (c # cs) = findall_from r k cs"
| "findall_from r 0 (c # cs) =
     (case rx_match r (c # cs) of
        [] \<Rightarrow> findall_from r 0 cs
      | (caps, rest) # _ \<Rightarrow> caps # findall_from r (length cs - length rest) cs)"

definition group :: "captures \<Rightarrow> nat \<Rightarrow> string" where
  \<comment> \<open>a group that took no part in the match reads as the empty string\<close>
  "group caps i = (case map_of caps i of None \<Rightarrow> [] | Some v \<Rightarrow> v)"

definition findall1 :: "rx \<Rightarrow> string \<Rightarrow> string list" where
  \<comment> \<open>\<^verbatim>\<open>re.findall\<close> for a pattern with one group\<close>
  "findall1 r s = map (\<lambda>caps. group caps 1) (findall_from r 0 s)"

definition findall2 :: "rx \<Rightarrow> string \<Rightarrow> (string \<times> string) list" where
  \<comment> \<open>\<^verbatim>\<open>re.findall\<close> for a pattern with two groups\<close>
  "findall2 r s = map (\<lambda>caps. (group caps 1, group caps 2)) (findall_from r 0 s)"

fun alts :: "string list \<Rightarrow> rx" where
  \<comment> \<open>\<^verbatim>\<open>'|'.join(words)\<close> inside a group\<close>
  "alts [] = Lit []"
| "alts [w] = Lit w"
| "alts (w # ws) = Alt (Lit w) (alts ws)"

fun seqs :: "rx list \<Rightarrow> rx" where
  "seqs [] = Lit []"
| "seqs [r] = r"
| "seqs (r # rs) = Seq r (seqs rs)"

section \<open>Articles and errors\<close>

text \<open>
  An article is a dictionary from field names to strings, as \<^verbatim>\<open>fetch_news_articles\<close>
  builds it (\<^verbatim>\<open>title\<close>, \<^verbatim>\<open>text\<close>, \<^verbatim>\<open>url\<close>, \<^verbatim>\<open>image\<close>, \<^verbatim>\<open>publish_date\<close>). A
  malformed record is one that lacks a field the code reads.
\<close>

type_synonym article = "string \<rightharpoonup> string"

datatype py_error = KeyError string | ValueError | OverflowError

definition item :: "article \<Rightarrow> string \<Rightarrow> py_error + string" where
  \<comment> \<open>the subscript \<^verbatim>\<open>article[k]\<close>\<close>
  "item a k = (case a k of None \<Rightarrow> Inl (KeyError k) | Some v \<Rightarrow> Inr v)"

definition get_or :: "article \<Rightarrow> string \<Rightarrow> string \<Rightarrow> string" where
  \<comment> \<open>\<^verbatim>\<open>article.get(k, d)\<close>\<close>
  "get_or a k d = (case a k of None \<Rightarrow> d | Some v \<Rightarrow> v)"

definition with_defaults :: "article \<Rightarrow> article" where
  \<comment> \<open>the record with each missing field of the two filled by the empty string\<close>
  "with_defaults a = a(''title'' \<mapsto> get_or a ''title'' [], ''text'' \<mapsto> get_or a ''text'' [])"

definition well_formed :: "article \<Rightarrow> bool" where
  \<comment> \<open>the documented shape: the two fields the pipeline reads are present\<close>
  "well_formed a = (a ''title'' \<noteq> None \<and> a ''text'' \<noteq> None)"

section \<open>Statistics extraction\<close>

text \<open>
  \<^verbatim>\<open>extract_conflict_statistics\<close>. The dictionary of counters is a record; the loop
  over the articles is a left fold that passes it on. After the loop the source divides
  two integers to a float, outside any handler: the division raises
  \<^verbatim>\<open>OverflowError\<close> when the quotient is beyond the range of a float, and then no
  report is returned. The quotient and its rounding to one decimal are exact here; the
  float the source stores can differ from that value in the last place.
\<close>

record counters =
  total_casualties :: int
  deaths :: int
  injuries :: int
  military_incidents :: int
  diplomatic_meetings :: int
  border_violations :: int
  economic_impact :: "real list"
  key_developments :: int
  recent_period :: string

record stats = counters +
  avg_casualties_per_incident :: real
  diplomatic_activity_level :: string
  conflict_intensity :: string

definition death_keywords :: "string list" where
  "death_keywords = [''killed'', ''dead'', ''deaths'', ''died'', ''fatalities'', ''casualties'']"

definition injury_keywords :: "string list" where
  "injury_keywords = [''injured'', ''wounded'', ''hurt'', ''casualties'']"

definition military_keywords :: "string list" where
  "military_keywords = [''missile'', ''drone'', ''attack'', ''strike'', ''firing'', ''shelling'',
     ''aircraft'', ''military operation'', ''bomb'', ''blast'', ''explosion'']"

definition diplomatic_keywords :: "string list" where
  "diplomatic_keywords = [''meeting'', ''talks'', ''summit'', ''minister'', ''ambassador'',
     ''diplomatic'', ''negotiation'', ''dialogue'']"

definition border_keywords :: "string list" where
  "border_keywords = [''border'', ''loc'', ''line of control'', ''ceasefire'', ''violation'',
     ''infiltration'', ''cross-border'']"

definition word_to_num :: "(string \<times> int) list" where
  "word_to_num =
     [(''zero'', 0), (''one'', 1), (''two'', 2), (''three'', 3), (''four'', 4), (''five'', 5),
      (''six'', 6), (''seven'', 7), (''eight'', 8), (''nine'', 9), (''ten'', 10),
      (''eleven'', 11), (''twelve'', 12), (''thirteen'', 13), (''fourteen'', 14),
      (''fifteen'', 15), (''sixteen'', 16), (''seventeen'', 17), (''eighteen'', 18),
      (''nineteen'', 19), (''twenty'', 20)]"

definition convert_word_to_number :: "string \<Rightarrow> int option" where
  "convert_word_to_number word = map_of word_to_num (lower word)"

definition number_words :: rx where
  \<comment> \<open>\<^verbatim>\<open>(zero|one|two|...|twenty)\<close>, in the order of the source\<close>
  "number_words = alts (map fst word_to_num)"

definition people_or_children :: rx where
  \<comment> \<open>\<^verbatim>\<open>(?:people\s+|children\s+)?\<close>\<close>
  "people_or_children =
     Opt (Alt (Seq (Lit ''people'') (Plus Space)) (Seq (Lit ''children'') (Plus Space)))"

definition death_pattern1 :: rx where
  "death_pattern1 = seqs [Grp 1 (Plus Digit), Plus Space, people_or_children, alts death_keywords]"

definition death_pattern2 :: rx where
  "death_pattern2 = seqs [alts death_keywords, Plus Space, Grp 1 (Plus Digit)]"

definition death_pattern3 :: rx where
  "death_pattern3 =
     Alt (seqs [alts [''death toll of'', ''toll of'', ''death count of''], Plus Space,
                Grp 1 (Plus Digit)])
         (seqs [Grp 2 (Plus Digit), Plus Space, Lit ''deaths''])"

definition death_pattern4 :: rx where
  "death_pattern4 =
     seqs [Lit ''at least'', Plus Space, Grp 1 (Plus Digit), Plus Space, alts death_keywords]"

definition death_pattern5 :: rx where
  "death_pattern5 = seqs [Grp 1 number_words, Plus Space, people_or_children, alts death_keywords]"

definition death_pattern6 :: rx where
  "death_pattern6 =
     seqs [Lit ''at least'', Plus Space, Grp 1 number_words, Plus Space, alts death_keywords]"

definition injury_pattern1 :: rx where
  "injury_pattern1 =
     seqs [Grp 1 (Plus Digit), Plus Space, people_or_children, alts injury_keywords]"

definition injury_pattern2 :: rx where
  "injury_pattern2 = seqs [alts injury_keywords, Plus Space, Grp 1 (Plus Digit)]"

definition injury_pattern3 :: rx where
  "injury_pattern3 =
     seqs [Lit ''at least'', Plus Space, Grp 1 (Plus Digit), Plus Space, alts injury_keywords]"

definition injury_pattern4 :: rx where
  "injury_pattern4 =
     seqs [Grp 1 number_words, Plus Space, people_or_children, alts injury_keywords]"

definition economic_pattern :: rx where
  \<comment> \<open>\<^verbatim>\<open>(\d+(?:\.\d+)?)\s*(?:billion|million)\<close>\<close>
  "economic_pattern =
     seqs [Grp 1 (Seq (Plus Digit) (Opt (Seq (Lit ''.'') (Plus Digit)))), Star Space,
           alts [''billion'', ''million'']]"

definition sum_digits :: "string list \<Rightarrow> int" where
  \<comment> \<open>the loop that adds \<^verbatim>\<open>int(match)\<close> and passes over a match that does not parse\<close>
  "sum_digits ms = sum_list (map (\<lambda>m. case py_int m of None \<Rightarrow> 0 | Some n \<Rightarrow> n) ms)"

definition sum_words :: "string list \<Rightarrow> int" where
  \<comment> \<open>the loop that adds the number of each word the table knows\<close>
  "sum_words ws =
     sum_list (map (\<lambda>w. case convert_word_to_number w of None \<Rightarrow> 0 | Some n \<Rightarrow> n) ws)"

definition article_deaths :: "string \<Rightarrow> int" where
  "article_deaths combined_text =
     (let death_matches1 = findall1 death_pattern1 combined_text;
          death_matches2 = findall1 death_pattern2 combined_text;
          death_matches3 = findall2 death_pattern3 combined_text;
          death_matches4 = findall1 death_pattern4 combined_text;
          death_matches5 = findall1 death_pattern5 combined_text;
          death_matches6 = findall1 death_pattern6 combined_text;
          all_death_matches =
            death_matches1 @ death_matches2 @ death_matches4 @
            concat (map (\<lambda>(a, b). filter (\<lambda>m. m \<noteq> []) [a, b]) death_matches3)
      in sum_digits all_death_matches + sum_words (death_matches5 @ death_matches6))"

definition article_injuries :: "string \<Rightarrow> int" where
  "article_injuries combined_text =
     (let injury_matches1 = findall1 injury_pattern1 combined_text;
          injury_matches2 = findall1 injury_pattern2 combined_text;
          injury_matches3 = findall1 injury_pattern3 combined_text;
          injury_matches4 = findall1 injury_pattern4 combined_text;
          all_injury_matches = injury_matches1 @ injury_matches2 @ injury_matches3
      in sum_digits all_injury_matches + sum_words injury_matches4)"

definition keyword_found :: "string list \<Rightarrow> string \<Rightarrow> bool" where
  \<comment> \<open>the category loops: the first keyword found in the text counts once and ends the loop\<close>
  "keyword_found keywords combined_text = list_ex (contains combined_text) keywords"

definition py_float :: "string \<Rightarrow> real option" where
  \<comment> \<open>\<^verbatim>\<open>float(s)\<close> on the numerals the economic pattern captures, digits with an
      optional fraction; the value is the decimal the numeral denotes\<close>
  "py_float s =
     (let ip = takeWhile is_digit s; rest = dropWhile is_digit s
      in case (py_int ip, rest) of
           (Some n, []) \<Rightarrow> Some (of_int n)
         | (Some n, c # fp) \<Rightarrow>
             (case py_int fp of
                Some f \<Rightarrow> if c = CHR ''.'' then Some (of_int n + of_int f / 10 ^ length fp) else None
              | None \<Rightarrow> None)
         | (None, _) \<Rightarrow> None)"

definition combined_of :: "article \<Rightarrow> string" where
  \<comment> \<open>\<^verbatim>\<open>f"{title} {text}"\<close> of the two lower-cased fields, each empty when absent\<close>
  "combined_of a = lower (get_or a ''title'' []) @ '' '' @ lower (get_or a ''text'' [])"

definition process_article :: "counters \<Rightarrow> article \<Rightarrow> counters" where
  "process_article st a =
     (let combined_text = combined_of a;
          d = article_deaths combined_text;
          i = article_injuries combined_text
      in st\<lparr> deaths := deaths st + d,
             injuries := injuries st + i,
             total_casualties := total_casualties st + (d + i),
             military_incidents :=
               military_incidents st + (if keyword_found military_keywords combined_text then 1 else 0),
             diplomatic_meetings :=
               diplomatic_meetings st + (if keyword_found diplomatic_keywords combined_text then 1 else 0),
             border_violations :=
               border_violations st + (if keyword_found border_keywords combined_text then 1 else 0),
             economic_impact :=
               economic_impact st @ List.map_filter py_float (findall1 economic_pattern combined_text),
             key_developments := key_developments st + 1 \<rparr>)"

definition initial_stats :: counters where
  "initial_stats =
     \<lparr> total_casualties = 0, deaths = 0, injuries = 0, military_incidents = 0,
       diplomatic_meetings = 0, border_violations = 0, economic_impact = [],
       key_developments = 0, recent_period = ''7 days'' \<rparr>"

definition level :: "int \<Rightarrow> int \<Rightarrow> int \<Rightarrow> string" where
  \<comment> \<open>\<^verbatim>\<open>'High' if n >= hi else 'Moderate' if n >= lo else 'Low'\<close>\<close>
  "level hi lo n = (if n \<ge> hi then ''High'' else if n \<ge> lo then ''Moderate'' else ''Low'')"

definition float_overflow :: real where
  \<comment> \<open>the least magnitude that rounds beyond the largest float\<close>
  "float_overflow = 2 ^ 1024 - 2 ^ 970"

definition true_divide :: "int \<Rightarrow> int \<Rightarrow> py_error + real" where
  \<comment> \<open>\<^verbatim>\<open>a / b\<close> on integers, for a divisor that is not zero\<close>
  "true_divide a b =
     (if float_overflow \<le> \<bar>real_of_int a / real_of_int b\<bar> then Inl OverflowError
      else Inr (real_of_int a / real_of_int b))"

definition round_half_even :: "real \<Rightarrow> int" where
  "round_half_even x =
     (let f = \<lfloor>x\<rfloor>; d = x - of_int f
      in if d < 1 / 2 then f else if 1 / 2 < d then f + 1 else if even f then f else f + 1)"

definition round1 :: "real \<Rightarrow> real" where
  \<comment> \<open>\<^verbatim>\<open>round(x, 1)\<close>\<close>
  "round1 x = of_int (round_half_even (x * 10)) / 10"

definition count_statistics :: "article list \<Rightarrow> counters" where
  \<comment> \<open>the dictionary after the loop over the articles\<close>
  "count_statistics articles = foldl process_article initial_stats articles"

definition extract_conflict_statistics :: "article list \<Rightarrow> py_error + stats" where
  "extract_conflict_statistics articles =
     (let st = count_statistics articles
      in case true_divide (total_casualties st) (max (military_incidents st) 1) of
           Inl e \<Rightarrow> Inl e
         | Inr avg \<Rightarrow>
             Inr (counters.extend st
                    (stats.fields (round1 avg) (level 3 1 (diplomatic_meetings st))
                       (level 4 2 (military_incidents st)))))"

definition counters_ok :: "counters \<Rightarrow> bool" where
  \<comment> \<open>the invariant of the loop over the articles\<close>
  "counters_ok st \<longleftrightarrow>
     total_casualties st = deaths st + injuries st \<and> 0 \<le> deaths st \<and> 0 \<le> injuries st \<and>
     0 \<le> military_incidents st \<and> 0 \<le> diplomatic_meetings st \<and> 0 \<le> border_violations st \<and>
     0 \<le> key_developments st"

section \<open>Geographic hotspots\<close>

text \<open>
  \<^verbatim>\<open>extract_geographic_hotspots\<close>. A gazetteer entry carries a name, coordinates and a
  type tag; a hotspot adds intensity, incident count and description. The list of
  hotspots is updated in place by the source and passed on here. Reading a field that an
  article lacks raises \<^verbatim>\<open>KeyError\<close> and ends the call.
\<close>

record location =
  name :: string
  lat :: real
  lng :: real
  type :: string

record hotspot = location +
  intensity :: string
  incidents :: int
  description :: string

definition known_locations :: "(string \<times> location) list" where
  \<comment> \<open>the dictionary in its insertion order, which is the order of iteration\<close>
  "known_locations =
     [(''kashmir'', \<lparr>name = ''Kashmir'', lat = 34.0837, lng = 74.7973, type = ''disputed_region''\<rparr>),
      (''loc'', \<lparr>name = ''Line of Control'', lat = 34.0466, lng = 74.3982, type = ''border''\<rparr>),
      (''karachi'', \<lparr>name = ''Karachi'', lat = 24.8607, lng = 67.0011, type = ''city''\<rparr>),
      (''islamabad'', \<lparr>name = ''Islamabad'', lat = 33.6844, lng = 73.0479, type = ''capital''\<rparr>),
      (''lahore'', \<lparr>name = ''Lahore'', lat = 31.5497, lng = 74.3436, type = ''city''\<rparr>),
      (''delhi'', \<lparr>name = ''New Delhi'', lat = 28.6139, lng = 77.2090, type = ''capital''\<rparr>),
      (''mumbai'', \<lparr>name = ''Mumbai'', lat = 19.0760, lng = 72.8777, type = ''city''\<rparr>),
      (''balochistan'', \<lparr>name = ''Balochistan'', lat = 28.1100, lng = 65.5400, type = ''province''\<rparr>),
      (''punjab'', \<lparr>name = ''Punjab'', lat = 30.9010, lng = 73.1200, type = ''province''\<rparr>),
      (''siachen'', \<lparr>name = ''Siachen Glacier'', lat = 35.4218, lng = 77.1025, type = ''disputed_region''\<rparr>)]"

definition default_hotspots :: "hotspot list" where
  "default_hotspots =
     [\<lparr>name = ''Kashmir'', lat = 34.0837, lng = 74.7973, type = ''disputed_region'',
       intensity = ''high'', incidents = 3,
       description = ''Ongoing tensions in disputed Kashmir region''\<rparr>,
      \<lparr>name = ''Line of Control'', lat = 34.0466, lng = 74.3982, type = ''border'',
       intensity = ''medium'', incidents = 2, description = ''Border incidents along LOC''\<rparr>,
      \<lparr>name = ''Balochistan'', lat = 28.1100, lng = 65.5400, type = ''province'',
       intensity = ''low'', incidents = 1, description = ''Regional security concerns''\<rparr>]"

definition conflict_keywords :: "string list" where
  "conflict_keywords = [''attack'', ''killed'', ''bomb'', ''blast'', ''shelling'', ''firing'',
     ''violence'', ''incident'', ''shot'', ''wounded'', ''explosion'', ''strike'']"

definition incident_count_of :: "string \<Rightarrow> int" where
  \<comment> \<open>one for each conflict keyword that occurs in the text\<close>
  "incident_count_of text = int (length (filter (contains text) conflict_keywords))"

definition intensity_of :: "int \<Rightarrow> string" where
  "intensity_of incident_count =
     (if incident_count \<ge> 3 then ''high'' else if incident_count \<ge> 1 then ''medium'' else ''low'')"

fun update_first :: "('a \<Rightarrow> bool) \<Rightarrow> ('a \<Rightarrow> 'a) \<Rightarrow> 'a list \<Rightarrow> 'a list option" where
  \<comment> \<open>\<^verbatim>\<open>next((h for h in hotspots if p(h)), None)\<close> followed by the update in place of
      the entry found; \<open>None\<close> when no entry satisfies \<open>p\<close>\<close>
  "update_first p f [] = None"
| "update_first p f (h # hs) =
     (if p h then Some (f h # hs) else map_option ((#) h) (update_first p f hs))"

definition merge_hotspot :: "string \<Rightarrow> int \<Rightarrow> hotspot \<Rightarrow> hotspot" where
  \<comment> \<open>the branch for an existing hotspot: raise the intensity, add the incidents\<close>
  "merge_hotspot new_intensity incident_count h =
     h\<lparr> intensity :=
           (if new_intensity = ''high'' \<or> (new_intensity = ''medium'' \<and> intensity h = ''low'')
            then new_intensity else intensity h),
        incidents := incidents h + incident_count \<rparr>"

definition new_hotspot :: "location \<Rightarrow> string \<Rightarrow> int \<Rightarrow> hotspot" where
  "new_hotspot location_data new_intensity incident_count =
     \<lparr> name = name location_data, lat = lat location_data, lng = lng location_data,
       type = type location_data, intensity = new_intensity, incidents = incident_count,
       description = ''Recent activity detected in '' @ name location_data \<rparr>"

definition visit_location :: "string \<Rightarrow> hotspot list \<Rightarrow> string \<times> location \<Rightarrow> hotspot list" where
  \<comment> \<open>the body of the loop over the gazetteer, for the lower-cased text of one article\<close>
  "visit_location text hotspots entry =
     (case entry of (location_key, location_data) \<Rightarrow>
        if contains text location_key
        then (let incident_count = incident_count_of text;
                  new_intensity = intensity_of incident_count
              in case update_first (\<lambda>h. name h = name location_data)
                        (merge_hotspot new_intensity incident_count) hotspots of
                   Some hotspots' \<Rightarrow> hotspots'
                 | None \<Rightarrow> hotspots @ [new_hotspot location_data new_intensity incident_count])
        else hotspots)"

definition title_and_text :: "article \<Rightarrow> py_error + string \<times> string" where
  \<comment> \<open>reads \<^verbatim>\<open>article['title']\<close>, then \<^verbatim>\<open>article['text']\<close>\<close>
  "title_and_text a =
     (case item a ''title'' of
        Inl e \<Rightarrow> Inl e
      | Inr t \<Rightarrow> (case item a ''text'' of Inl e \<Rightarrow> Inl e | Inr x \<Rightarrow> Inr (t, x)))"

fun analyse_locations :: "hotspot list \<Rightarrow> article list \<Rightarrow> py_error + hotspot list" where
  "analyse_locations hotspots [] = Inr hotspots"
| "analyse_locations hotspots (a # articles) =
     (case title_and_text a of
        Inl e \<Rightarrow> Inl e
      | Inr (t, x) \<Rightarrow>
          analyse_locations
            (foldl (visit_location (lower (t @ '' '' @ x))) hotspots known_locations) articles)"

definition extract_geographic_hotspots :: "article list \<Rightarrow> py_error + hotspot list" where
  "extract_geographic_hotspots articles =
     (case analyse_locations [] articles of
        Inl e \<Rightarrow> Inl e
      | Inr hotspots \<Rightarrow>
          Inr (if length hotspots = 0 then default_hotspots
               else hotspots @
                    filter (\<lambda>d. name d \<notin> set (map name hotspots)) default_hotspots))"

section \<open>Trending keywords\<close>

text \<open>
  \<^verbatim>\<open>extract_trending_keywords\<close>. The TF-IDF vectoriser belongs to an external library;
  it is the parameter \<open>vectorize\<close>, which maps the corpus to the feature names with their
  scores, in the order of the features, or fails. Everything from the size test on runs
  inside the \<^verbatim>\<open>try\<close>, whose handler returns the fallback list; the loop that joins
  the article fields runs before it.
\<close>

record keyword_entry =
  kw_text :: string
  weight :: real
  frequency :: int

type_synonym vectorizer = "string list \<Rightarrow> py_error + (string \<times> real) list"

definition custom_stop_words :: "string list" where
  "custom_stop_words =
     [''said'', ''says'', ''according'', ''report'', ''reports'', ''news'', ''article'', ''also'',
      ''would'', ''could'', ''should'', ''one'', ''two'', ''three'', ''new'', ''first'', ''last'',
      ''many'', ''several'', ''some'', ''other'', ''more'', ''most'', ''year'', ''years'', ''day'',
      ''days'', ''time'', ''week'', ''weeks'', ''month'', ''months'', ''today'', ''yesterday'',
      ''people'', ''government'', ''country'', ''countries'', ''state'', ''states'', ''region'',
      ''area'', ''world'', ''including'', ''following'', ''during'', ''after'', ''before'',
      ''between'', ''among'', ''across'', ''within'']"

definition important_keywords :: "(string \<times> real) list" where
  "important_keywords =
     [(''pakistan'', 3.0), (''india'', 3.0), (''kashmir'', 2.5), (''conflict'', 2.0),
      (''ceasefire'', 2.5), (''military'', 2.0), (''border'', 2.0), (''attack'', 2.0),
      (''peace'', 2.5), (''tension'', 2.0), (''diplomatic'', 2.0), (''china'', 1.8),
      (''afghanistan'', 1.8), (''taliban'', 1.8), (''nuclear'', 2.2), (''missile'', 2.0),
      (''drone'', 1.8), (''terrorism'', 2.0), (''security'', 1.8), (''violence'', 2.0),
      (''negotiations'', 2.5), (''talks'', 2.0), (''minister'', 1.5), (''army'', 1.8),
      (''forces'', 1.8), (''loc'', 2.0), (''balochistan'', 1.8), (''punjab'', 1.5),
      (''karachi'', 1.5), (''islamabad'', 1.5), (''delhi'', 1.5), (''mumbai'', 1.5),
      (''soldiers'', 1.8), (''civilians'', 2.0), (''casualties'', 2.2), (''killed'', 2.0),
      (''injured'', 1.8), (''blast'', 2.0), (''bomb'', 2.0), (''shelling'', 2.0)]"

definition fallback_keywords :: "keyword_entry list" where
  "fallback_keywords =
     [\<lparr>kw_text = ''Pakistan'', weight = 100, frequency = 10\<rparr>,
      \<lparr>kw_text = ''India'', weight = 95, frequency = 9\<rparr>,
      \<lparr>kw_text = ''Kashmir'', weight = 80, frequency = 6\<rparr>,
      \<lparr>kw_text = ''Conflict'', weight = 70, frequency = 5\<rparr>,
      \<lparr>kw_text = ''Military'', weight = 60, frequency = 4\<rparr>,
      \<lparr>kw_text = ''Border'', weight = 55, frequency = 4\<rparr>,
      \<lparr>kw_text = ''Diplomatic'', weight = 50, frequency = 3\<rparr>,
      \<lparr>kw_text = ''Security'', weight = 45, frequency = 3\<rparr>,
      \<lparr>kw_text = ''Taliban'', weight = 42, frequency = 3\<rparr>,
      \<lparr>kw_text = ''China'', weight = 40, frequency = 2\<rparr>,
      \<lparr>kw_text = ''Afghanistan'', weight = 38, frequency = 2\<rparr>,
      \<lparr>kw_text = ''Nuclear'', weight = 35, frequency = 2\<rparr>]"

fun join_articles :: "string \<Rightarrow> article list \<Rightarrow> py_error + string" where
  \<comment> \<open>the loop that appends \<^verbatim>\<open>f" {title} {text}"\<close> of every article to \<^verbatim>\<open>all_text\<close>\<close>
  "join_articles all_text [] = Inr all_text"
| "join_articles all_text (a # articles) =
     (case title_and_text a of
        Inl e \<Rightarrow> Inl e
      | Inr (t, x) \<Rightarrow> join_articles (all_text @ '' '' @ t @ '' '' @ x) articles)"

definition score_keyword :: "string \<Rightarrow> string \<times> real \<Rightarrow> keyword_entry option" where
  \<comment> \<open>the body of the loop over the features; \<open>None\<close> is a \<^verbatim>\<open>continue\<close>\<close>
  "score_keyword all_text feature =
     (case feature of (keyword, score) \<Rightarrow>
        if lower keyword \<in> set custom_stop_words then None
        else if length keyword < 3 then None
        else if isdigit keyword then None
        else
          (let boosted = (case map_of important_keywords (lower keyword) of
                            Some factor \<Rightarrow> score * factor
                          | None \<Rightarrow> score);
               freq = count (lower all_text) (lower keyword);
               combined_score = boosted * (1 + real freq * 0.1)
           in Some \<lparr>kw_text = title_case keyword, weight = min (combined_score * 100) 100,
                     frequency = int freq\<rparr>))"

definition sort_by_weight :: "keyword_entry list \<Rightarrow> keyword_entry list" where
  \<comment> \<open>\<^verbatim>\<open>sort(key=lambda x: x['weight'], reverse=True)\<close>: descending and stable\<close>
  "sort_by_weight ks = sort_key (\<lambda>k. - weight k) ks"

definition slice_to :: "int \<Rightarrow> 'a list \<Rightarrow> 'a list" where
  \<comment> \<open>the slice \<^verbatim>\<open>xs[:n]\<close>; a negative \<open>n\<close> counts from the end\<close>
  "slice_to n xs = (if 0 \<le> n then take (nat n) xs else take (length xs - nat (- n)) xs)"

definition keywords_of_text :: "vectorizer \<Rightarrow> string \<Rightarrow> int \<Rightarrow> keyword_entry list" where
  \<comment> \<open>the \<^verbatim>\<open>try\<close> block together with its handler\<close>
  "keywords_of_text vectorize all_text max_keywords =
     (if length (strip all_text) < 100 then fallback_keywords
      else case vectorize [all_text] of
             Inl e \<Rightarrow> fallback_keywords
           | Inr features \<Rightarrow>
               (let keyword_scores = List.map_filter (score_keyword all_text) features;
                    trending_keywords = slice_to max_keywords (sort_by_weight keyword_scores)
                in if length trending_keywords = 0 then fallback_keywords
                   else trending_keywords))"

definition extract_trending_keywords ::
  "vectorizer \<Rightarrow> article list \<Rightarrow> int \<Rightarrow> py_error + keyword_entry list" where
  "extract_trending_keywords vectorize articles max_keywords =
     (case join_articles [] articles of
        Inl e \<Rightarrow> Inl e
      | Inr all_text \<Rightarrow> Inr (keywords_of_text vectorize all_text max_keywords))"

section \<open>Sentence ranking and summary\<close>

text \<open>
  \<^verbatim>\<open>generate_summary\<close> and the functions below it. Two collaborators are parameters:
  \<open>vectorize\<close>, the TF-IDF vectoriser of the sentence scorer, which maps the sentences to
  the rows of the weight matrix or fails, and \<open>openai_summary\<close>, the optional external
  summariser \<^verbatim>\<open>generate_openai_summary\<close>, which yields a text or nothing and never
  raises. A dictionary of scores with the keys \<open>0, \<dots>, n - 1\<close> is the list of its
  values.
\<close>

type_synonym sentence_vectorizer = "string list \<Rightarrow> py_error + real list list"

definition join :: "string \<Rightarrow> string list \<Rightarrow> string" where
  \<comment> \<open>\<^verbatim>\<open>sep.join(parts)\<close>\<close>
  "join sep parts = (case parts of [] \<Rightarrow> [] | p # ps \<Rightarrow> p @ concat (map ((@) sep) ps))"

definition is_terminal :: "char \<Rightarrow> bool" where
  \<comment> \<open>the class \<^verbatim>\<open>[.!?]\<close>\<close>
  "is_terminal c = (c = CHR ''.'' \<or> c = CHR ''!'' \<or> c = CHR ''?'')"

fun split_from :: "string \<Rightarrow> string \<Rightarrow> string list" where
  \<comment> \<open>\<^verbatim>\<open>re.split(r'[.!?]+', s)\<close>: a piece ends at the last character of a run of
      terminal punctuation; the first argument is the piece read so far\<close>
  "split_from cur [] = [cur]"
| "split_from cur [c] = (if is_terminal c then [cur, []] else [cur @ [c]])"
| "split_from cur (c # d # cs) =
     (if is_terminal c
      then (if is_terminal d then split_from cur (d # cs) else cur # split_from [] (d # cs))
      else split_from (cur @ [c]) (d # cs))"

definition tokenize_sentences :: "string \<Rightarrow> string list" where
  \<comment> \<open>\<^verbatim>\<open>[s.strip() for s in re.split(...) if len(s.strip()) > 20]\<close>\<close>
  "tokenize_sentences full_text =
     map strip (filter (\<lambda>s. length (strip s) > 20) (split_from [] full_text))"

definition get_score :: "real list \<Rightarrow> nat \<Rightarrow> real" where
  \<comment> \<open>\<^verbatim>\<open>scores.get(i, 0)\<close>\<close>
  "get_score scores i = (if i < length scores then scores ! i else 0)"

definition score_sentences_tfidf :: "sentence_vectorizer \<Rightarrow> string list \<Rightarrow> real list" where
  \<comment> \<open>a failure of the vectoriser, or a matrix with too few rows, is caught and gives the
      uniform score\<close>
  "score_sentences_tfidf vectorize sentences =
     (if length sentences < 2 then (if sentences \<noteq> [] then [1] else [])
      else case vectorize sentences of
             Inl e \<Rightarrow> replicate (length sentences) 1
           | Inr rows \<Rightarrow>
               if length rows < length sentences then replicate (length sentences) 1
               else map sum_list (take (length sentences) rows))"

definition summary_keywords :: "string list" where
  \<comment> \<open>\<^verbatim>\<open>important_keywords\<close> of \<^verbatim>\<open>score_sentences_keywords\<close>\<close>
  "summary_keywords =
     [''pakistan'', ''india'', ''kashmir'', ''conflict'', ''ceasefire'', ''military'',
      ''government'', ''border'', ''attack'', ''peace'', ''tension'', ''diplomatic'',
      ''china'', ''afghanistan'', ''taliban'', ''nuclear'', ''missile'', ''drone'']"

definition score_sentences_keywords :: "string list \<Rightarrow> real list" where
  "score_sentences_keywords sentences =
     map (\<lambda>sentence.
            real (length (filter (contains (lower sentence)) summary_keywords))
              / real (length summary_keywords))
         sentences"

definition position_score :: "nat \<Rightarrow> nat \<Rightarrow> real" where
  "position_score tot i =
     (if i = 0 \<or> i = tot - 1 then 1
      else if real i < real tot * 0.3 then 0.8
      else if real i > real tot * 0.7 then 0.8
      else 0.5)"

definition score_sentences_position :: "string list \<Rightarrow> real list" where
  "score_sentences_position sentences =
     map (position_score (length sentences)) [0 ..< length sentences]"

definition length_score :: "nat \<Rightarrow> real" where
  "length_score n =
     (if 10 \<le> n \<and> n \<le> 25 then 1
      else if 8 \<le> n \<and> n \<le> 30 then 0.8
      else if 5 \<le> n \<and> n \<le> 35 then 0.6
      else 0.3)"

definition score_sentences_length :: "string list \<Rightarrow> real list" where
  "score_sentences_length sentences = map (\<lambda>sentence. length_score (word_count sentence)) sentences"

definition combined_scores :: "sentence_vectorizer \<Rightarrow> string list \<Rightarrow> (real \<times> string) list" where
  "combined_scores vectorize sentences =
     (let tfidf_scores = score_sentences_tfidf vectorize sentences;
          keyword_scores = score_sentences_keywords sentences;
          position_scores = score_sentences_position sentences;
          length_scores = score_sentences_length sentences
      in map (\<lambda>(i, sentence).
                (get_score tfidf_scores i * 0.4 + get_score keyword_scores i * 0.3 +
                 get_score position_scores i * 0.2 + get_score length_scores i * 0.1,
                 sentence))
             (enumerate 0 sentences))"

definition nlargest :: "int \<Rightarrow> (real \<times> string) list \<Rightarrow> (real \<times> string) list" where
  \<comment> \<open>\<^verbatim>\<open>heapq.nlargest(n, xs)\<close>, by its documentation \<^verbatim>\<open>sorted(xs, reverse=True)[:n]\<close>;
      tuples compare by the score first and by the text, code point by code point, second\<close>
  "nlargest n xs = take (nat n) (rev (sort xs))"

definition extract_key_sentences_multimethod ::
  "sentence_vectorizer \<Rightarrow> string \<Rightarrow> int \<Rightarrow> string list" where
  \<comment> \<open>the argument \<^verbatim>\<open>text_sources\<close> of the source is never read and is left out\<close>
  "extract_key_sentences_multimethod vectorize full_text target_count =
     (let sentences = tokenize_sentences full_text
      in if length sentences < 3 then sentences
         else map snd (nlargest target_count (combined_scores vectorize sentences)))"

definition generate_context_intro :: "string list \<Rightarrow> string" where
  "generate_context_intro titles =
     (let all_title_text = lower (join '' '' titles)
      in if contains all_title_text ''ceasefire'' \<or> contains all_title_text ''peace''
         then ''The India-Pakistan conflict shows signs of potential diplomatic breakthrough as peace initiatives gain momentum.''
         else if contains all_title_text ''attack'' \<or> contains all_title_text ''missile''
                 \<or> contains all_title_text ''drone''
         then ''Military tensions have escalated in the India-Pakistan conflict, with both nations engaging in strategic operations.''
         else if contains all_title_text ''china''
                 \<and> (contains all_title_text ''afghanistan'' \<or> contains all_title_text ''taliban'')
         then ''Regional dynamics involving China and Afghanistan are reshaping India-Pakistan relations in South Asia.''
         else if contains all_title_text ''taliban''
         then ''The Taliban's growing influence is creating new diplomatic complexities in India-Pakistan relations.''
         else if contains all_title_text ''china''
         then ''China's involvement continues to influence the strategic balance between India and Pakistan.''
         else ''The India-Pakistan conflict continues to evolve with significant regional and international implications.'')"

definition prefixes_to_remove :: "string list" where
  "prefixes_to_remove =
     [''Islamabad, Pakistan '' @ [en_dash], ''Islamabad, Pakistan -'',
      ''New Delhi, India '' @ [en_dash], ''New Delhi, India -'']"

definition remove_prefix :: "string \<Rightarrow> string \<Rightarrow> string" where
  \<comment> \<open>one round of the loop over the prefixes\<close>
  "remove_prefix sentence prefix =
     (if startswith sentence prefix then strip (drop (length prefix) sentence) else sentence)"

definition capitalize_first :: "string \<Rightarrow> string" where
  \<comment> \<open>\<^verbatim>\<open>sentence[0].upper() + sentence[1:]\<close>, guarded by \<^verbatim>\<open>if sentence\<close>\<close>
  "capitalize_first sentence = (case sentence of [] \<Rightarrow> [] | c # cs \<Rightarrow> upper_char c # cs)"

definition clean_sentence_for_summary :: "string \<Rightarrow> string" where
  "clean_sentence_for_summary sentence0 =
     (let sentence1 = strip sentence0
      in if length sentence1 < 20 then []
         else
           (let sentence2 = foldl remove_prefix sentence1 prefixes_to_remove;
                sentence3 = replace sentence2 ('' '' @ [en_dash] @ '' '') '' - '';
                sentence4 = replace sentence3 ''  '' '' '';
                sentence5 =
                  (if endswith sentence4 ''.'' \<or> endswith sentence4 ''!'' \<or> endswith sentence4 ''?''
                   then sentence4 else sentence4 @ ''.'')
            in capitalize_first sentence5))"

fun collect_texts :: "string list \<Rightarrow> string list \<Rightarrow> article list
    \<Rightarrow> py_error + string list \<times> string list" where
  \<comment> \<open>the loop that fills \<^verbatim>\<open>all_text\<close> and \<^verbatim>\<open>titles\<close>\<close>
  "collect_texts all_text titles [] = Inr (all_text, titles)"
| "collect_texts all_text titles (a # articles) =
     (case title_and_text a of
        Inl e \<Rightarrow> Inl e
      | Inr (t, x) \<Rightarrow>
          (let text = strip (replace x [CHR 0x0A] '' '')
           in collect_texts (if text \<noteq> [] then all_text @ [text] else all_text)
                (titles @ [t]) articles))"

definition compose_summary :: "string \<Rightarrow> string list \<Rightarrow> string" where
  \<comment> \<open>the last step of \<^verbatim>\<open>generate_free_summary\<close>, for a non-empty list of key sentences\<close>
  "compose_summary context_intro key_sentences =
     (let cleaned_sentences =
            filter (\<lambda>clean_sent. clean_sent \<noteq> [] \<and> length clean_sent > 30)
              (map clean_sentence_for_summary (take 4 key_sentences))
      in if length cleaned_sentences \<ge> 2
         then join '' ''
                ([context_intro,
                  ''Recent developments indicate that '' @ lower (cleaned_sentences ! 0),
                  ''Additionally, '' @ lower (cleaned_sentences ! 1)]
                 @ (if length cleaned_sentences \<ge> 3
                    then [''Meanwhile, '' @ lower (cleaned_sentences ! 2)] else [])
                 @ (if length cleaned_sentences \<ge> 4
                    then [''The ongoing situation has resulted in'' @ '' ''
                            @ lower (cleaned_sentences ! 3)]
                    else []))
         else context_intro @ '' '' @ join '' '' cleaned_sentences)"

definition generate_free_summary ::
  "sentence_vectorizer \<Rightarrow> article list \<Rightarrow> int \<Rightarrow> py_error + string" where
  "generate_free_summary vectorize articles target_sentences =
     (if articles = [] then Inr ''No articles available for analysis.''
      else case collect_texts [] [] articles of
             Inl e \<Rightarrow> Inl e
           | Inr (all_text, titles) \<Rightarrow>
               if all_text = [] then Inr ''No readable content found in articles.''
               else
                 (let full_text = join '' '' all_text;
                      key_sentences =
                        extract_key_sentences_multimethod vectorize full_text target_sentences;
                      context_intro = generate_context_intro titles
                  in if key_sentences = []
                     then Inr (context_intro @
                       '' Recent developments are still emerging, with ongoing diplomatic and security concerns in the region.'')
                     else Inr (compose_summary context_intro key_sentences)))"

fun missing_field :: "article list \<Rightarrow> py_error option" where
  \<comment> \<open>the comprehension that reads \<^verbatim>\<open>a['title']\<close> and \<^verbatim>\<open>a['text']\<close> of every article,
      before the \<^verbatim>\<open>try\<close>: the first error, if any\<close>
  "missing_field [] = None"
| "missing_field (a # articles) =
     (case title_and_text a of Inl e \<Rightarrow> Some e | Inr _ \<Rightarrow> missing_field articles)"

definition generate_summary ::
  "(article list \<Rightarrow> string option) \<Rightarrow> sentence_vectorizer \<Rightarrow> article list \<Rightarrow> py_error + string" where
  "generate_summary openai_summary vectorize articles =
     (if articles = [] then Inr ''No recent news articles found about the India-Pakistan conflict.''
      else case missing_field articles of
             Some e \<Rightarrow> Inl e
           | None \<Rightarrow>
               (case generate_free_summary vectorize articles 6 of
                  Inl e \<Rightarrow> Inr ''Error generating summary. Please try again later.''
                | Inr summary \<Rightarrow>
                    (case openai_summary articles of
                       Some s \<Rightarrow>
                         if s \<noteq> [] \<and> \<not> contains s ''Error generating summary'' then Inr s
                         else Inr summary
                     | None \<Rightarrow> Inr summary)))"

section \<open>Notions for the analysis of the casualty patterns\<close>

fun needs_digit :: "rx \<Rightarrow> bool" where
  \<comment> \<open>a sufficient condition for a pattern to read a decimal digit in every match\<close>
  "needs_digit (Lit l) = False"
| "needs_digit (Plus c) = (c = Digit)"
| "needs_digit (Star c) = False"
| "needs_digit (Seq a b) = (needs_digit a \<or> needs_digit b)"
| "needs_digit (Alt a b) = (needs_digit a \<and> needs_digit b)"
| "needs_digit (Opt a) = False"
| "needs_digit (Grp i a) = needs_digit a"

fun no_match_in :: "rx \<Rightarrow> string \<Rightarrow> string \<Rightarrow> bool" where
  \<comment> \<open>the pattern matches at no position of the first text, read with the second text
      after it\<close>
  "no_match_in r [] rest = True"
| "no_match_in r (c # cs) rest = (rx_match r (c # cs @ rest) = [] \<and> no_match_in r cs rest)"

definition other_death_keywords :: "string list" where
  \<comment> \<open>the death keywords without \<^verbatim>\<open>deaths\<close>, which a third digit pattern counts again\<close>
  "other_death_keywords = remove1 ''deaths'' death_keywords"

definition between_words :: "string list" where
  \<comment> \<open>what the optional group \<^verbatim>\<open>(?:people\s+|children\s+)?\<close> can read, with one blank\<close>
  "between_words = ['''', ''people '', ''children '']"

section \<open>Sample inputs\<close>

text \<open>Concrete articles and vectorisers, on which the properties below are instantiated.\<close>

definition failing_vectorizer :: vectorizer where
  \<comment> \<open>a vectoriser that rejects every corpus\<close>
  "failing_vectorizer docs = Inl ValueError"

definition sample_vectorizer :: vectorizer where
  \<comment> \<open>a vectoriser with a fixed vocabulary\<close>
  "sample_vectorizer docs =
     Inr [(''12'', 0.1), (''border'', 0.2), (''india'', 0.3), (''islamabad'', 0.1),
          (''officials said'', 0.1), (''pakistan'', 0.3), (''said'', 0.2), (''talks'', 0.2)]"

definition border_article :: article where
  "border_article =
     [''title'' \<mapsto> ''Border fire'',
      ''text'' \<mapsto> ''Pakistan and India exchanged fire along the border on 12 March; officials said talks in Islamabad would resume once shelling stops.'']"

definition short_article :: article where
  "short_article = [''title'' \<mapsto> ''Border fire'', ''text'' \<mapsto> ''Shots were heard.'']"

definition untitled_article :: article where
  \<comment> \<open>a malformed record: the field \<^verbatim>\<open>title\<close> is missing\<close>
  "untitled_article = [''text'' \<mapsto> ''Six killed in Kashmir.'']"

definition no_openai :: "article list \<Rightarrow> string option" where
  \<comment> \<open>the external summariser when no client is configured\<close>
  "no_openai articles = None"

definition terse_article :: article where
  \<comment> \<open>an article whose only sentence has 29 characters\<close>
  "terse_article = [''title'' \<mapsto> ''Border fire'', ''text'' \<mapsto> ''This is a short sentence here.'']"

definition ranking_text :: string where
  \<comment> \<open>three sentences; the first and the last receive the same combined score\<close>
  "ranking_text =
     ''Alpha sentence number one is here. Middle sentence is sitting right here. Zulu sentence number one is here.''"

definition article_with_text :: "string \<Rightarrow> article" where
  "article_with_text t = [''title'' \<mapsto> [], ''text'' \<mapsto> t]"

fun str_nat :: "nat \<Rightarrow> string" where
  \<comment> \<open>the decimal numeral of a number, \<^verbatim>\<open>str(n)\<close>\<close>
  "str_nat n =
     (if n < 10 then [char_of (48 + n)] else str_nat (n div 10) @ [char_of (48 + n mod 10)])"

definition failing_sentence_vectorizer :: sentence_vectorizer where
  \<comment> \<open>a sentence vectoriser that rejects every corpus, so that the scorer falls back to
      the uniform score\<close>
  "failing_sentence_vectorizer sentences = Inl ValueError"

section \<open>Properties of the statistics extractor\<close>

lemma py_int_nonneg_aux: "list_all is_digit s \<Longrightarrow> 0 \<le> acc \<Longrightarrow> 0 \<le> foldl (\<lambda>acc c. 10 * acc + digit_val c) acc s"
proof (induction s arbitrary: acc)
  case Nil then show ?case by simp
next
  case (Cons c s)
  from Cons.prems have "0 \<le> digit_val c"
    by (auto simp: is_digit_def digit_val_def)
  with Cons.prems have "0 \<le> 10 * acc + digit_val c" by simp
  with Cons show ?case by simp
qed

lemma py_int_nonneg: "py_int s = Some n \<Longrightarrow> 0 \<le> n"
  by (auto simp: py_int_def isdigit_def py_int_nonneg_aux split: if_splits)

lemma sum_digits_nonneg: "0 \<le> sum_digits ms"
  unfolding sum_digits_def
  by (rule sum_list_nonneg) (auto split: option.splits dest: py_int_nonneg)

lemma word_to_num_nonneg: "(w, n) \<in> set word_to_num \<Longrightarrow> 0 \<le> n"
  by (auto simp: word_to_num_def)

lemma convert_word_nonneg: "convert_word_to_number w = Some n \<Longrightarrow> 0 \<le> n"
  unfolding convert_word_to_number_def
  by (drule map_of_SomeD) (rule word_to_num_nonneg)

lemma sum_words_nonneg: "0 \<le> sum_words ws"
  unfolding sum_words_def
  by (rule sum_list_nonneg) (auto split: option.splits dest: convert_word_nonneg)

lemma article_deaths_nonneg: "0 \<le> article_deaths t"
  by (simp add: article_deaths_def Let_def sum_digits_nonneg sum_words_nonneg)

lemma article_injuries_nonneg: "0 \<le> article_injuries t"
  by (simp add: article_injuries_def Let_def sum_digits_nonneg sum_words_nonneg)

lemma counters_ok_initial: "counters_ok initial_stats"
  by (simp add: counters_ok_def initial_stats_def)

lemma counters_ok_step: "counters_ok st \<Longrightarrow> counters_ok (process_article st a)"
  using article_deaths_nonneg [of "combined_of a"] article_injuries_nonneg [of "combined_of a"]
  by (simp add: counters_ok_def process_article_def Let_def)

lemma counters_ok_foldl: "counters_ok st \<Longrightarrow> counters_ok (foldl process_article st articles)"
  by (induction articles arbitrary: st) (simp_all add: counters_ok_step)

lemma count_statistics_ok: "counters_ok (count_statistics articles)"
  unfolding count_statistics_def by (rule counters_ok_foldl) (rule counters_ok_initial)

lemma float_overflow_large: "10 ^ 308 \<le> float_overflow"
  by (simp add: float_overflow_def)

lemma true_divide_cases:
  assumes "0 \<le> a" and "1 \<le> b"
  shows "(\<exists>q. true_divide a b = Inr q) \<or> (true_divide a b = Inl OverflowError \<and> 10 ^ 308 \<le> a)"
proof (cases "float_overflow \<le> \<bar>real_of_int a / real_of_int b\<bar>")
  case False
  then show ?thesis by (simp add: true_divide_def)
next
  case True
  have "real_of_int a / real_of_int b \<le> real_of_int a"
    using assms by (simp add: divide_le_eq mult_le_cancel_left1)
  moreover have "0 \<le> real_of_int a / real_of_int b"
    using assms by simp
  ultimately have "float_overflow \<le> real_of_int a"
    using True by linarith
  then have "(10::real) ^ 308 \<le> real_of_int a"
    by (rule order_trans [OF float_overflow_large])
  then have "real_of_int (10 ^ 308) \<le> real_of_int a"
    by (simp only: of_int_power of_int_numeral)
  then have "10 ^ 308 \<le> a"
    by (simp only: of_int_le_iff)
  with True show ?thesis by (simp add: true_divide_def)
qed

lemma statistics_cases:
  "(\<exists>q. extract_conflict_statistics articles =
          Inr (counters.extend (count_statistics articles)
                 (stats.fields q (level 3 1 (diplomatic_meetings (count_statistics articles)))
                    (level 4 2 (military_incidents (count_statistics articles))))))
   \<or> (extract_conflict_statistics articles = Inl OverflowError \<and>
       10 ^ 308 \<le> total_casualties (count_statistics articles))"
proof -
  let ?st = "count_statistics articles"
  have ok: "counters_ok ?st" by (rule count_statistics_ok)
  then have "0 \<le> total_casualties ?st" and "1 \<le> max (military_incidents ?st) 1"
    by (simp_all add: counters_ok_def)
  from true_divide_cases [OF this] show ?thesis
    by (auto simp: extract_conflict_statistics_def Let_def)
qed

lemma statistics_returned:
  assumes "total_casualties (count_statistics articles) < 10 ^ 308"
  shows "\<exists>report. extract_conflict_statistics articles = Inr report"
  using statistics_cases [of articles] assms by auto

text \<open>
  C1. For every list of articles the report that is returned satisfies
  \<open>total_casualties = deaths + injuries\<close>, and every counter is a non-negative integer.
  No report is returned only when the division after the loop overflows, which takes a
  total of at least \<open>10\<^sup>3\<^sup>0\<^sup>8\<close> casualties.
\<close>

theorem statistics_casualty_invariant:
  "case extract_conflict_statistics articles of
     Inl e \<Rightarrow> e = OverflowError \<and> 10 ^ 308 \<le> total_casualties (count_statistics articles)
   | Inr report \<Rightarrow>
       total_casualties report = deaths report + injuries report
       \<and> 0 \<le> total_casualties report
       \<and> 0 \<le> deaths report
       \<and> 0 \<le> injuries report
       \<and> 0 \<le> military_incidents report
       \<and> 0 \<le> diplomatic_meetings report
       \<and> 0 \<le> border_violations report
       \<and> 0 \<le> key_developments report"
  using statistics_cases [of articles] count_statistics_ok [of articles]
  by (auto simp: counters_ok_def counters.defs stats.defs)

theorem statistics_casualty_invariant_witness:
  "\<exists>report. extract_conflict_statistics [article_with_text ''six killed''] = Inr report
     \<and> total_casualties report = deaths report + injuries report
     \<and> 0 \<le> total_casualties report
     \<and> 0 \<le> deaths report
     \<and> 0 \<le> injuries report
     \<and> 0 \<le> military_incidents report
     \<and> 0 \<le> diplomatic_meetings report
     \<and> 0 \<le> border_violations report
     \<and> 0 \<le> key_developments report"
proof -
  have "total_casualties (count_statistics [article_with_text ''six killed'']) = 6"
    by code_simp
  then have "total_casualties (count_statistics [article_with_text ''six killed'']) < 10 ^ 308"
    by simp
  then obtain report where "extract_conflict_statistics [article_with_text ''six killed''] = Inr report"
    using statistics_returned by blast
  with statistics_casualty_invariant [of "[article_with_text ''six killed'']"] show ?thesis
    by simp
qed

text \<open>
  C8. On the empty article list every counter of the report is zero, \<open>key_developments\<close>
  is zero, and both derived levels are \<open>Low\<close>.
\<close>

theorem statistics_of_no_articles:
  "extract_conflict_statistics [] =
     Inr \<lparr> total_casualties = 0, deaths = 0, injuries = 0, military_incidents = 0,
           diplomatic_meetings = 0, border_violations = 0, economic_impact = [],
           key_developments = 0, recent_period = ''7 days'',
           avg_casualties_per_incident = 0,
           diplomatic_activity_level = ''Low'', conflict_intensity = ''Low'' \<rparr>"
proof -
  have "true_divide 0 1 = Inr 0"
    using float_overflow_large by (simp add: true_divide_def)
  then show ?thesis
    by (simp add: extract_conflict_statistics_def count_statistics_def initial_stats_def level_def
          round1_def round_half_even_def counters.defs stats.defs)
qed

section \<open>Properties of the hotspot extractor\<close>

lemma update_first_None: "update_first p f hs = None \<longleftrightarrow> (\<forall>h \<in> set hs. \<not> p h)"
  by (induction hs) auto

lemma update_first_names:
  assumes "update_first p f hs = Some hs'" and "\<And>h. name (f h) = name h"
  shows "map name hs' = map name hs"
  using assms(1)
proof (induction hs arbitrary: hs')
  case Nil
  then show ?case by simp
next
  case (Cons h hs)
  then show ?case
    by (auto simp: assms(2) split: if_splits)
qed

lemma merge_hotspot_name: "name (merge_hotspot i n h) = name h"
  by (simp add: merge_hotspot_def)

lemma new_hotspot_name: "name (new_hotspot d i n) = name d"
  by (simp add: new_hotspot_def)

lemma visit_location_distinct:
  assumes "distinct (map name hs)"
  shows "distinct (map name (visit_location t hs e))"
proof (cases e)
  case (Pair k d)
  show ?thesis
  proof (cases "update_first (\<lambda>h. name h = name d)
                  (merge_hotspot (intensity_of (incident_count_of t)) (incident_count_of t)) hs")
    case None
    then have "name d \<notin> set (map name hs)"
      by (auto simp: update_first_None)
    with assms None Pair show ?thesis
      by (simp add: visit_location_def Let_def new_hotspot_name)
  next
    case (Some hs')
    then have "map name hs' = map name hs"
      by (rule update_first_names) (rule merge_hotspot_name)
    with assms Some Pair show ?thesis
      by (simp add: visit_location_def Let_def)
  qed
qed

lemma visit_all_distinct:
  "distinct (map name hs) \<Longrightarrow> distinct (map name (foldl (visit_location t) hs es))"
  by (induction es arbitrary: hs) (simp_all add: visit_location_distinct)

lemma title_and_text_well_formed:
  "well_formed a \<Longrightarrow> \<exists>t x. title_and_text a = Inr (t, x)"
  by (auto simp: well_formed_def title_and_text_def item_def)

lemma analyse_locations_distinct:
  "list_all well_formed articles \<Longrightarrow> distinct (map name hs) \<Longrightarrow>
   \<exists>hs'. analyse_locations hs articles = Inr hs' \<and> distinct (map name hs')"
proof (induction articles arbitrary: hs)
  case Nil
  then show ?case by simp
next
  case (Cons a articles)
  from Cons.prems(1) have "well_formed a" by simp
  then obtain t x where tx: "title_and_text a = Inr (t, x)"
    using title_and_text_well_formed by blast
  have "distinct (map name (foldl (visit_location (lower (t @ '' '' @ x))) hs known_locations))"
    using Cons.prems(2) by (rule visit_all_distinct)
  with Cons.IH Cons.prems(1) tx show ?case by simp
qed

lemma default_hotspot_names:
  "map name default_hotspots = [''Kashmir'', ''Line of Control'', ''Balochistan'']"
  by (simp add: default_hotspots_def)

lemma distinct_with_defaults:
  assumes "distinct (map name hs)"
  shows "distinct (map name (hs @ filter (\<lambda>d. name d \<notin> set (map name hs)) default_hotspots))"
proof -
  have "distinct (map name default_hotspots)"
    by (simp add: default_hotspot_names)
  then have "distinct (map name (filter (\<lambda>d. name d \<notin> set (map name hs)) default_hotspots))"
    by (rule distinct_map_filter)
  moreover have "set (map name hs) \<inter>
      set (map name (filter (\<lambda>d. name d \<notin> set (map name hs)) default_hotspots)) = {}"
    by (auto simp: image_iff)
  ultimately show ?thesis using assms by (simp only: map_append distinct_append)
qed

lemma names_with_defaults:
  "set (map name default_hotspots)
     \<subseteq> set (map name (hs @ filter (\<lambda>d. name d \<notin> set (map name hs)) default_hotspots))"
  by auto

text \<open>
  C7. For every list of articles of the documented shape the call returns a sequence
  with at most one hotspot per name, in which the three canonical names Kashmir,
  Line of Control and Balochistan all occur.
\<close>

theorem hotspots_unique_and_canonical:
  assumes "list_all well_formed articles"
  shows "\<exists>hs. extract_geographic_hotspots articles = Inr hs \<and> distinct (map name hs) \<and>
           {''Kashmir'', ''Line of Control'', ''Balochistan''} \<subseteq> set (map name hs)"
proof -
  from assms obtain hs where hs: "analyse_locations [] articles = Inr hs" "distinct (map name hs)"
    using analyse_locations_distinct [of articles "[]"] by auto
  let ?r = "if length hs = 0 then default_hotspots
            else hs @ filter (\<lambda>d. name d \<notin> set (map name hs)) default_hotspots"
  have r: "extract_geographic_hotspots articles = Inr ?r"
    using hs(1) by (simp add: extract_geographic_hotspots_def)
  have d: "distinct (map name ?r)"
    using distinct_with_defaults [OF hs(2)] by (simp add: default_hotspot_names)
  have "set (map name default_hotspots) \<subseteq> set (map name ?r)"
  proof (cases "length hs = 0")
    case True
    then show ?thesis by simp
  next
    case False
    then show ?thesis using names_with_defaults [of hs] by (simp only: if_False)
  qed
  then have c: "{''Kashmir'', ''Line of Control'', ''Balochistan''} \<subseteq> set (map name ?r)"
    by (simp only: default_hotspot_names) simp
  from r d c show ?thesis by blast
qed

theorem hotspots_unique_and_canonical_witness:
  "list_all well_formed [[''title'' \<mapsto> ''Attack in Kashmir'', ''text'' \<mapsto> ''Two killed near Lahore.'']] \<and>
   (\<exists>hs. extract_geographic_hotspots
            [[''title'' \<mapsto> ''Attack in Kashmir'', ''text'' \<mapsto> ''Two killed near Lahore.'']] = Inr hs \<and>
         distinct (map name hs) \<and>
         {''Kashmir'', ''Line of Control'', ''Balochistan''} \<subseteq> set (map name hs))"
proof -
  have wf: "list_all well_formed [[''title'' \<mapsto> ''Attack in Kashmir'', ''text'' \<mapsto> ''Two killed near Lahore.'']]"
    by (simp add: well_formed_def)
  from wf hotspots_unique_and_canonical [OF wf] show ?thesis by blast
qed

text \<open>
  C10. On the empty article list the call returns exactly the three default hotspots:
  Kashmir with intensity high, Line of Control with intensity medium and Balochistan
  with intensity low.
\<close>

theorem hotspots_of_no_articles:
  "extract_geographic_hotspots [] =
     Inr [\<lparr>name = ''Kashmir'', lat = 34.0837, lng = 74.7973, type = ''disputed_region'',
            intensity = ''high'', incidents = 3,
            description = ''Ongoing tensions in disputed Kashmir region''\<rparr>,
          \<lparr>name = ''Line of Control'', lat = 34.0466, lng = 74.3982, type = ''border'',
            intensity = ''medium'', incidents = 2, description = ''Border incidents along LOC''\<rparr>,
          \<lparr>name = ''Balochistan'', lat = 28.1100, lng = 65.5400, type = ''province'',
            intensity = ''low'', incidents = 1, description = ''Regional security concerns''\<rparr>]"
  by (simp add: extract_geographic_hotspots_def default_hotspots_def)

section \<open>Properties of the keyword extractor\<close>

lemma length_strip_le: "length (strip s) \<le> length s"
proof -
  have "length (dropWhile is_space (rev (dropWhile is_space s))) \<le> length (rev (dropWhile is_space s))"
    by (rule length_dropWhile_le)
  also have "\<dots> \<le> length s"
    by (simp add: length_dropWhile_le)
  finally show ?thesis by (simp add: strip_def)
qed

lemma join_articles_well_formed:
  "list_all well_formed articles \<Longrightarrow> \<exists>all_text. join_articles acc articles = Inr all_text"
proof (induction articles arbitrary: acc)
  case Nil
  then show ?case by simp
next
  case (Cons a articles)
  from Cons.prems have "well_formed a" by simp
  then obtain t x where "title_and_text a = Inr (t, x)"
    using title_and_text_well_formed by blast
  with Cons show ?case by simp
qed

lemma fallback_descending: "sorted_wrt (\<lambda>a b. weight b \<le> weight a) fallback_keywords"
  by (simp add: fallback_keywords_def)

lemma sort_by_weight_descending: "sorted_wrt (\<lambda>a b. weight b \<le> weight a) (sort_by_weight ks)"
proof -
  have "sorted (map (\<lambda>k. - weight k) (sort_by_weight ks))"
    unfolding sort_by_weight_def by (rule sorted_sort_key)
  then show ?thesis
    by (simp add: sorted_map sorted_wrt_iff_nth_less)
qed

lemma slice_to_descending:
  assumes "sorted_wrt (\<lambda>a b. weight b \<le> weight a) ks"
  shows "sorted_wrt (\<lambda>a b. weight b \<le> weight a) (slice_to n ks)"
  using assms by (simp add: slice_to_def sorted_wrt_take)

lemma slice_to_length: "0 \<le> n \<Longrightarrow> int (length (slice_to n ks)) \<le> n"
  by (simp add: slice_to_def)

lemma keywords_of_text_descending:
  "sorted_wrt (\<lambda>a b. weight b \<le> weight a) (keywords_of_text vectorize all_text max_keywords)"
  by (auto simp: keywords_of_text_def Let_def fallback_descending slice_to_descending
        sort_by_weight_descending split: sum.splits)

lemma keywords_of_text_length:
  assumes "0 \<le> max_keywords"
  shows "keywords_of_text vectorize all_text max_keywords = fallback_keywords \<or>
         int (length (keywords_of_text vectorize all_text max_keywords)) \<le> max_keywords"
  using slice_to_length [OF assms]
  by (auto simp: keywords_of_text_def Let_def split: sum.splits)

text \<open>
  C4, as the code has it. For every list of articles of the documented shape and every
  \<open>max_keywords\<close> the returned sequence is ordered descending by weight; it is either the
  fixed fallback list, which keeps its twelve entries whatever \<open>max_keywords\<close> is, or,
  for a non-negative \<open>max_keywords\<close>, has at most \<open>max_keywords\<close> entries.
\<close>

theorem keywords_bounded_and_descending:
  assumes "list_all well_formed articles"
  shows "\<exists>ks. extract_trending_keywords vectorize articles max_keywords = Inr ks \<and>
           sorted_wrt (\<lambda>a b. weight b \<le> weight a) ks \<and>
           (0 \<le> max_keywords \<longrightarrow> ks = fallback_keywords \<or> int (length ks) \<le> max_keywords)"
proof -
  from assms obtain all_text where "join_articles [] articles = Inr all_text"
    using join_articles_well_formed by blast
  then have "extract_trending_keywords vectorize articles max_keywords =
               Inr (keywords_of_text vectorize all_text max_keywords)"
    by (simp add: extract_trending_keywords_def)
  then show ?thesis
    using keywords_of_text_descending keywords_of_text_length by blast
qed


theorem keywords_bounded_and_descending_witness:
  "list_all well_formed [border_article] \<and>
   (\<exists>ks. extract_trending_keywords sample_vectorizer [border_article] 3 = Inr ks \<and>
         sorted_wrt (\<lambda>a b. weight b \<le> weight a) ks \<and>
         (ks = fallback_keywords \<or> int (length ks) \<le> 3))"
proof -
  have wf: "list_all well_formed [border_article]"
    by (simp add: well_formed_def border_article_def)
  from keywords_bounded_and_descending [OF wf, of sample_vectorizer 3] wf
  show ?thesis by simp
qed

theorem keywords_exceed_max_counterexample:
  "extract_trending_keywords failing_vectorizer [] 5 = Inr fallback_keywords \<and>
   \<not> int (length fallback_keywords) \<le> 5"
  by (simp add: extract_trending_keywords_def keywords_of_text_def strip_def fallback_keywords_def)

text \<open>
  C9. On the empty article list, and on every input whose combined text has fewer than
  100 characters, the call returns exactly the fixed fallback list of twelve entries,
  with the weights 100, 95, 80, 70, 60, 55, 50, 45, 42, 40, 38, 35 in that order.
\<close>

theorem keywords_fallback_on_short_text:
  assumes "join_articles [] articles = Inr all_text" and "length all_text < 100"
  shows "extract_trending_keywords vectorize articles max_keywords = Inr fallback_keywords \<and>
         length fallback_keywords = 12 \<and>
         map weight fallback_keywords = [100, 95, 80, 70, 60, 55, 50, 45, 42, 40, 38, 35]"
proof -
  have "length (strip all_text) < 100"
    using length_strip_le [of all_text] assms(2) by simp
  then have "keywords_of_text vectorize all_text max_keywords = fallback_keywords"
    by (simp add: keywords_of_text_def)
  with assms(1) show ?thesis
    by (simp add: extract_trending_keywords_def fallback_keywords_def)
qed

theorem keywords_fallback_on_short_text_witness:
  "extract_trending_keywords sample_vectorizer [] 20 = Inr fallback_keywords \<and>
   extract_trending_keywords sample_vectorizer [short_article] 20 = Inr fallback_keywords \<and>
   length fallback_keywords = 12 \<and>
   map weight fallback_keywords = [100, 95, 80, 70, 60, 55, 50, 45, 42, 40, 38, 35]"
proof -
  have e: "join_articles [] [] = Inr []"
    by simp
  have s: "join_articles [] [short_article] = Inr '' Border fire Shots were heard.''"
    by (simp add: short_article_def title_and_text_def item_def)
  have l: "length '' Border fire Shots were heard.'' < 100"
    by simp
  from keywords_fallback_on_short_text [OF e, of sample_vectorizer 20]
    keywords_fallback_on_short_text [OF s l, of sample_vectorizer 20]
  show ?thesis by simp
qed

section \<open>Properties of the sentence ranker\<close>

lemma nlargest_length: "length (nlargest n cs) = min (nat n) (length cs)"
  by (simp add: nlargest_def)

lemma nlargest_split: "mset (nlargest n cs) + mset (drop (nat n) (rev (sort cs))) = mset cs"
proof -
  have "mset (take (nat n) (rev (sort cs))) + mset (drop (nat n) (rev (sort cs)))
          = mset (take (nat n) (rev (sort cs)) @ drop (nat n) (rev (sort cs)))"
    by (simp only: mset_append)
  also have "\<dots> = mset (rev (sort cs))"
    by (simp only: append_take_drop_id)
  also have "\<dots> = mset cs"
    by simp
  finally show ?thesis by (simp only: nlargest_def)
qed

lemma nlargest_rest: "mset cs - mset (nlargest n cs) = mset (drop (nat n) (rev (sort cs)))"
  using nlargest_split [of n cs] by (metis add_diff_cancel_left')

lemma descending_rev_sort: "sorted_wrt (\<lambda>p q. q \<le> p) (rev (sort (cs :: (real \<times> string) list)))"
proof -
  have "sorted (sort cs)" by simp
  then have "sorted_wrt (\<lambda>p q. p \<le> q) (sort cs)" by simp
  then show ?thesis by (simp add: sorted_wrt_rev)
qed

lemma nlargest_descending: "sorted_wrt (\<lambda>p q. q \<le> p) (nlargest n cs)"
  unfolding nlargest_def by (rule sorted_wrt_take) (rule descending_rev_sort)

lemma nlargest_dominates:
  assumes "p \<in># mset cs - mset (nlargest n cs)" and "q \<in> set (nlargest n cs)"
  shows "p \<le> q"
proof -
  have "sorted_wrt (\<lambda>p q. q \<le> p) (take (nat n) (rev (sort cs)) @ drop (nat n) (rev (sort cs)))"
    by (simp only: append_take_drop_id) (rule descending_rev_sort)
  then have "\<forall>x \<in> set (take (nat n) (rev (sort cs))). \<forall>y \<in> set (drop (nat n) (rev (sort cs))). y \<le> x"
    by (simp only: sorted_wrt_append) blast
  moreover from assms(1) have "p \<in> set (drop (nat n) (rev (sort cs)))"
    by (simp add: nlargest_rest)
  moreover from assms(2) have "q \<in> set (take (nat n) (rev (sort cs)))"
    by (simp add: nlargest_def)
  ultimately show ?thesis by blast
qed

lemma pair_le_iff:
  "(p :: real \<times> string) \<le> q \<longleftrightarrow> fst p < fst q \<or> fst p = fst q \<and> snd p \<le> snd q"
  by (cases p; cases q) auto

text \<open>
  C6. With at least three sentences, the selection returns the texts of the \<open>n\<close> pairs
  (combined score, sentence) that are highest: the selected pairs are in descending
  order, and every pair left out lies below every selected one, where a pair with the
  higher score is above, and between pairs of equal score the one with the
  lexicographically larger text is above.
\<close>

theorem selection_takes_highest_pairs:
  assumes "3 \<le> length (tokenize_sentences full_text)"
  shows "\<exists>top. extract_key_sentences_multimethod vectorize full_text n = map snd top \<and>
           length top = min (nat n) (length (tokenize_sentences full_text)) \<and>
           mset top \<subseteq># mset (combined_scores vectorize (tokenize_sentences full_text)) \<and>
           sorted_wrt (\<lambda>p q. fst q < fst p \<or> fst q = fst p \<and> snd q \<le> snd p) top \<and>
           (\<forall>p \<in># mset (combined_scores vectorize (tokenize_sentences full_text)) - mset top.
              \<forall>q \<in> set top. fst p < fst q \<or> fst p = fst q \<and> snd p \<le> snd q)"
proof -
  let ?cs = "combined_scores vectorize (tokenize_sentences full_text)"
  let ?top = "nlargest n ?cs"
  have len_cs: "length ?cs = length (tokenize_sentences full_text)"
    by (simp add: combined_scores_def Let_def)
  have a: "extract_key_sentences_multimethod vectorize full_text n = map snd ?top"
    using assms by (simp add: extract_key_sentences_multimethod_def Let_def)
  have b: "length ?top = min (nat n) (length (tokenize_sentences full_text))"
    by (simp only: nlargest_length len_cs)
  have c: "mset ?top \<subseteq># mset ?cs"
    using nlargest_split [of n ?cs] by (metis mset_subset_eq_add_left)
  have d: "sorted_wrt (\<lambda>p q. fst q < fst p \<or> fst q = fst p \<and> snd q \<le> snd p) ?top"
    using nlargest_descending [of n ?cs] by (simp only: pair_le_iff)
  have e: "\<forall>p \<in># mset ?cs - mset ?top. \<forall>q \<in> set ?top. fst p < fst q \<or> fst p = fst q \<and> snd p \<le> snd q"
    using nlargest_dominates [of _ ?cs n] by (simp only: pair_le_iff) blast
  from a b c d e show ?thesis by blast
qed


theorem selection_takes_highest_pairs_witness:
  "3 \<le> length (tokenize_sentences ranking_text) \<and>
   extract_key_sentences_multimethod failing_sentence_vectorizer ranking_text 1
     = [''Zulu sentence number one is here''] \<and>
   (\<exists>top. extract_key_sentences_multimethod failing_sentence_vectorizer ranking_text 1 = map snd top \<and>
      length top = min (nat 1) (length (tokenize_sentences ranking_text)) \<and>
      mset top \<subseteq># mset (combined_scores failing_sentence_vectorizer (tokenize_sentences ranking_text)) \<and>
      sorted_wrt (\<lambda>p q. fst q < fst p \<or> fst q = fst p \<and> snd q \<le> snd p) top \<and>
      (\<forall>p \<in># mset (combined_scores failing_sentence_vectorizer (tokenize_sentences ranking_text)) - mset top.
         \<forall>q \<in> set top. fst p < fst q \<or> fst p = fst q \<and> snd p \<le> snd q))"
proof -
  have h: "3 \<le> length (tokenize_sentences ranking_text)"
    by code_simp
  have v: "extract_key_sentences_multimethod failing_sentence_vectorizer ranking_text 1
             = [''Zulu sentence number one is here'']"
    by code_simp
  from selection_takes_highest_pairs [OF h, of failing_sentence_vectorizer 1] h v
  show ?thesis by blast
qed

section \<open>Properties of the summary composer\<close>

text \<open>
  C5, at an input where the code departs from it. The only sentence of the article has
  29 characters: it is a key sentence, its cleaned form has 30 characters and is dropped,
  and the summary is the opener followed by a blank, which is no terminal punctuation.
\<close>

theorem summary_ends_with_blank:
  "generate_summary no_openai vectorize [terse_article] =
     Inr ''The India-Pakistan conflict continues to evolve with significant regional and international implications. '' \<and>
   last ''The India-Pakistan conflict continues to evolve with significant regional and international implications. '' = CHR '' ''"
  by code_simp

section \<open>Empty and malformed input\<close>

lemma combined_of_with_defaults: "combined_of (with_defaults a) = combined_of a"
  by (simp add: combined_of_def with_defaults_def get_or_def)

lemma process_article_with_defaults: "process_article st (with_defaults a) = process_article st a"
  by (simp add: process_article_def combined_of_with_defaults)

lemma foldl_process_with_defaults:
  "foldl process_article st (map with_defaults articles) = foldl process_article st articles"
  by (induction articles arbitrary: st) (simp_all add: process_article_with_defaults)

lemma count_statistics_with_defaults:
  "count_statistics (map with_defaults articles) = count_statistics articles"
  by (simp add: count_statistics_def foldl_process_with_defaults)

lemma well_formed_with_defaults: "well_formed (with_defaults a)"
  by (simp add: well_formed_def with_defaults_def)

text \<open>
  C2, as the code has it. On the empty article list each of the four functions returns
  its fallback: the no-articles message, the zero-valued report, the fallback keyword
  list, the default hotspots. The statistics extractor reads a field that a record lacks
  as the empty string: its outcome on any article list is its outcome on the completed
  records, it returns a report whenever the total of the casualties is below
  \<open>10\<^sup>3\<^sup>0\<^sup>8\<close>, and the only error it raises is the \<^verbatim>\<open>OverflowError\<close> of the division
  after the loop.
\<close>

theorem fallbacks_and_tolerant_statistics:
  "generate_summary openai_summary vectorize [] =
     Inr ''No recent news articles found about the India-Pakistan conflict.'' \<and>
   extract_conflict_statistics [] =
     Inr \<lparr> total_casualties = 0, deaths = 0, injuries = 0, military_incidents = 0,
           diplomatic_meetings = 0, border_violations = 0, economic_impact = [],
           key_developments = 0, recent_period = ''7 days'',
           avg_casualties_per_incident = 0,
           diplomatic_activity_level = ''Low'', conflict_intensity = ''Low'' \<rparr> \<and>
   extract_trending_keywords keyword_vectorize [] max_keywords = Inr fallback_keywords \<and>
   extract_geographic_hotspots [] = Inr default_hotspots \<and>
   extract_conflict_statistics articles = extract_conflict_statistics (map with_defaults articles) \<and>
   list_all well_formed (map with_defaults articles) \<and>
   (total_casualties (count_statistics articles) < 10 ^ 308 \<longrightarrow>
      (\<exists>report. extract_conflict_statistics articles = Inr report)) \<and>
   (\<forall>e. extract_conflict_statistics articles = Inl e \<longrightarrow> e = OverflowError)"
proof -
  have a: "generate_summary openai_summary vectorize [] =
             Inr ''No recent news articles found about the India-Pakistan conflict.''"
    by (simp add: generate_summary_def)
  have "true_divide 0 1 = Inr 0"
    using float_overflow_large by (simp add: true_divide_def)
  then have b: "extract_conflict_statistics [] =
     Inr \<lparr> total_casualties = 0, deaths = 0, injuries = 0, military_incidents = 0,
           diplomatic_meetings = 0, border_violations = 0, economic_impact = [],
           key_developments = 0, recent_period = ''7 days'',
           avg_casualties_per_incident = 0,
           diplomatic_activity_level = ''Low'', conflict_intensity = ''Low'' \<rparr>"
    by (simp add: extract_conflict_statistics_def count_statistics_def initial_stats_def level_def
          round1_def round_half_even_def counters.defs stats.defs)
  have c: "extract_trending_keywords keyword_vectorize [] max_keywords = Inr fallback_keywords"
    by (simp add: extract_trending_keywords_def keywords_of_text_def strip_def)
  have d: "extract_geographic_hotspots [] = Inr default_hotspots"
    by (simp add: extract_geographic_hotspots_def)
  have e: "extract_conflict_statistics articles = extract_conflict_statistics (map with_defaults articles)"
    by (simp add: extract_conflict_statistics_def count_statistics_with_defaults)
  have f: "list_all well_formed (map with_defaults articles)"
    by (simp add: list_all_iff well_formed_with_defaults)
  have g: "total_casualties (count_statistics articles) < 10 ^ 308 \<longrightarrow>
             (\<exists>report. extract_conflict_statistics articles = Inr report)"
    using statistics_returned by blast
  have h: "\<forall>e. extract_conflict_statistics articles = Inl e \<longrightarrow> e = OverflowError"
    using statistics_cases [of articles] by auto
  from a b c d e f g h show ?thesis by (intro conjI)
qed

theorem fallbacks_and_tolerant_statistics_witness:
  "total_casualties (count_statistics [untitled_article]) < 10 ^ 308 \<and>
   (\<exists>report. extract_conflict_statistics [untitled_article] = Inr report \<and>
      extract_conflict_statistics (map with_defaults [untitled_article]) = Inr report \<and>
      deaths report = 6)"
proof -
  have t: "total_casualties (count_statistics [untitled_article]) = 6"
    by code_simp
  have d: "deaths (count_statistics [untitled_article]) = 6"
    by code_simp
  from t have l: "total_casualties (count_statistics [untitled_article]) < 10 ^ 308"
    by simp
  note T = fallbacks_and_tolerant_statistics [of no_openai failing_sentence_vectorizer
    failing_vectorizer 20 "[untitled_article]"]
  from T have e: "extract_conflict_statistics [untitled_article] =
      extract_conflict_statistics (map with_defaults [untitled_article])"
    by (elim conjE)
  from T l obtain report where r: "extract_conflict_statistics [untitled_article] = Inr report"
    by (elim conjE) blast
  from e r have m: "extract_conflict_statistics (map with_defaults [untitled_article]) = Inr report"
    by simp
  from r statistics_cases [of "[untitled_article]"] d have "deaths report = 6"
    by (auto simp: counters.defs stats.defs)
  with l r m show ?thesis by blast
qed

theorem malformed_record_raises_counterexample:
  "generate_summary no_openai failing_sentence_vectorizer [untitled_article] = Inl (KeyError ''title'') \<and>
   extract_trending_keywords failing_vectorizer [untitled_article] 20 = Inl (KeyError ''title'') \<and>
   extract_geographic_hotspots [untitled_article] = Inl (KeyError ''title'')"
  by code_simp


end
